theory Spec2Isabelle
  imports Complex_Main "HOL-Library.AList"
begin

section \<open>Data model (types/chat.ts, types/api.ts, types/auth.ts)\<close>

text \<open>
  The TypeScript interfaces become records; optional fields (\<^verbatim>\<open>title?: string\<close>) become
  \<open>option\<close> fields. Field names carry a prefix (\<open>m_\<close> for Message, \<open>c_\<close> for Chat) because
  both interfaces have \<^verbatim>\<open>id\<close> and \<^verbatim>\<open>created_at\<close>. Strings are byte lists, the
  UTF-8 encoding of the JavaScript string; page numbers are integers.
\<close>

datatype role = User | Assistant

record source =
  src_title :: string
  src_source :: string
  src_category :: string
  src_similarity :: real

record msg_metadata =
  tokens_used :: "int option"
  sources :: "source list option"
  model :: "string option"

record message =
  m_id :: string
  m_chat_id :: string
  m_role :: role
  m_content :: string
  m_metadata :: "msg_metadata option"
  m_created_at :: string

record chat =
  c_id :: string
  c_user_id :: "string option"
  c_title :: "string option"
  c_is_anonymous :: bool
  c_created_at :: string
  c_updated_at :: "string option"
  c_message_count :: "int option"

text \<open>\<^verbatim>\<open>ChatMessageRequest\<close>: the body of the post-message call.\<close>

record chat_message_request =
  req_message :: string
  req_chat_id :: "string option"

text \<open>
  \<^verbatim>\<open>ChatMessageResponse\<close> as it is at run time: the interface says \<^verbatim>\<open>message\<close> is always
  there, but \<^verbatim>\<open>sendMessage\<close> tests \<^verbatim>\<open>!response.message\<close>, so the field is optional here.
\<close>

record chat_message_response =
  resp_message :: "message option"
  resp_chat :: "chat option"

record paginated_messages =
  pm_messages :: "message list"
  pm_total :: int
  pm_page :: int
  pm_page_size :: int
  pm_has_next :: bool
  pm_has_previous :: bool

text \<open>\<^verbatim>\<open>ApiError\<close> of types/api.ts: the object literal that \<^verbatim>\<open>transformError\<close> builds.\<close>

record api_error =
  detail :: string
  status_code :: int
  err_type :: "string option"

text \<open>\<^verbatim>\<open>TokenResponse\<close> of types/auth.ts.\<close>

record token_response =
  access_token :: string
  refresh_token :: string
  token_type :: string
  expires_in :: int

section \<open>Configuration constants (lib/config.ts)\<close>

definition DEFAULT_PAGE_SIZE :: int where
  "DEFAULT_PAGE_SIZE = 3"

definition STORAGE_KEYS_USER :: string where
  "STORAGE_KEYS_USER = ''financebot-user''"

definition STORAGE_KEYS_TOKENS :: string where
  "STORAGE_KEYS_TOKENS = ''financebot-tokens''"

section \<open>Clock readings and the welcome message\<close>

text \<open>
  The code reads the clock twice whenever it synthesizes a message: \<^verbatim>\<open>Date.now()\<close> for the
  id and \<^verbatim>\<open>new Date().toISOString()\<close> for \<^verbatim>\<open>created_at\<close>. A \<open>clock\<close> value is one such pair
  of readings, handed to the model by the environment.
\<close>

record clock =
  now_ms :: nat
  now_iso :: string

text \<open>Decimal rendering of a number inside a template literal.\<close>

fun decimal :: "nat \<Rightarrow> string" where
  "decimal n = (if n < 10 then [''0123456789'' ! n]
                else decimal (n div 10) @ [''0123456789'' ! (n mod 10)])"

declare decimal.simps [simp del]

text \<open>
  \<^verbatim>\<open>WELCOME_MESSAGE\<close> (constants/welcomeMessage): a template literal; its \<^verbatim>\<open>\n\<close> escapes and
  its line breaks are newline characters, and the two symbols outside ASCII (the waving
  hand and the bullet) are written as their UTF-8 bytes.
\<close>

definition nl :: string where
  "nl = [CHR 0x0A]"

definition wave :: string where
  "wave = [CHR 0xF0, CHR 0x9F, CHR 0x91, CHR 0x8B]"

definition bullet :: string where
  "bullet = [CHR 0xE2, CHR 0x80, CHR 0xA2]"

definition WELCOME_MESSAGE :: string where
  "WELCOME_MESSAGE =
     nl @ wave @ '' Welcome to FinanceBot! I'm here to help you with questions about:'' @ nl
     @ nl @ nl @ bullet
     @ '' **Account & Registration** - Creating accounts, verification, profile management'' @ nl
     @ nl @ bullet
     @ '' **Payments & Transactions** - Transfers, payments, transaction history'' @ nl
     @ nl @ bullet
     @ '' **Security & Fraud Prevention** - Account security, fraud prevention tips'' @ nl
     @ nl @ bullet
     @ '' **Regulations & Compliance** - Financial regulations, compliance requirements'' @ nl
     @ nl @ bullet
     @ '' **Technical Support** - App issues, troubleshooting, system support'' @ nl
     @ nl @ ''How can I assist you today?'' @ nl"

text \<open>\<^verbatim>\<open>ChatService.getWelcomeMessage\<close>: a constant message, no API call.\<close>

definition getWelcomeMessage :: "clock \<Rightarrow> message" where
  "getWelcomeMessage clk =
     \<lparr> m_id = ''welcome-'' @ decimal (now_ms clk),
       m_chat_id = ''welcome'',
       m_role = Assistant,
       m_content = WELCOME_MESSAGE,
       m_metadata = Some \<lparr> tokens_used = None, sources = None, model = None \<rparr>,
       m_created_at = now_iso clk \<rparr>"

section \<open>The conversation state (ChatProvider)\<close>

text \<open>
  The eight \<^verbatim>\<open>useState\<close> cells of \<^verbatim>\<open>ChatProvider\<close> are one record. Every callback of the
  provider is a state transformer; a callback with an \<^verbatim>\<open>await\<close> is cut at the await into a
  part that runs when it is called and a part that runs when the backend call settles.
  Each part returns the new state together with the backend calls it issued, so that
  "issues no network request" is the statement that this list is empty. What a callback
  captured from its render (\<^verbatim>\<open>currentChat\<close>, \<^verbatim>\<open>isLoading\<close>, \<^verbatim>\<open>isChatLoading\<close>,
  \<^verbatim>\<open>hasMoreMessages\<close>, \<^verbatim>\<open>currentPage\<close>) is read from the state the call starts in; the
  functional updates (\<^verbatim>\<open>setMessages(prev => ...)\<close>) act on the state at the moment they run.
\<close>

record chat_state =
  chats :: "chat list"
  currentChat :: "chat option"
  messages :: "message list"
  isLoading :: bool
  isChatLoading :: bool
  error :: "string option"
  hasMoreMessages :: bool
  currentPage :: int

text \<open>The calls of \<^verbatim>\<open>ChatService\<close> that reach the backend.\<close>

datatype request =
    GetChats int int
  | GetChat string
  | DeleteChat string
  | GetMessages string int int
  | PostMessage chat_message_request

text \<open>The initial values of the \<^verbatim>\<open>useState\<close> cells.\<close>

definition initial_state :: chat_state where
  "initial_state =
     \<lparr> chats = [], currentChat = None, messages = [], isLoading = False,
       isChatLoading = False, error = None, hasMoreMessages = False, currentPage = 1 \<rparr>"

subsection \<open>createNewChat\<close>

text \<open>
  \<^verbatim>\<open>
  const createNewChat = useCallback(async () => {
    setCurrentChat(null);
    const welcomeMessage = getWelcomeMessage();
    setMessages([welcomeMessage]);
  }, [getWelcomeMessage]);
  \<close>
\<close>

definition createNewChat :: "clock \<Rightarrow> chat_state \<Rightarrow> chat_state \<times> request list" where
  "createNewChat clk s =
     (s\<lparr> currentChat := None, messages := [getWelcomeMessage clk] \<rparr>, [])"

section \<open>Errors (lib/api.ts, services/chatService.ts)\<close>

text \<open>
  A raw failure as axios raises it, by the case distinction of \<^verbatim>\<open>transformError\<close>:
  an error object with a \<^verbatim>\<open>response\<close> (its status and the optional \<^verbatim>\<open>detail\<close> and
  \<^verbatim>\<open>type\<close> of its body), an error object with only a \<^verbatim>\<open>request\<close> (nothing was
  received), another \<^verbatim>\<open>Error\<close> instance with its message, or a thrown value that is not
  an object at all.
\<close>

datatype raw_error =
    WithResponse int "string option" "string option"
  | WithRequest
  | PlainError string
  | NonError

text \<open>
  The values that travel as exceptions through the service layer: the \<^verbatim>\<open>ApiError\<close>
  object literal, a raw error passed on unchanged, or an instance made by
  \<^verbatim>\<open>new Error(message)\<close>.
\<close>

datatype thrown = ApiErr api_error | Raw raw_error | Err string

text \<open>\<^verbatim>\<open>x || fallback\<close> on an optional string: undefined and the empty string are falsy.\<close>

definition or_default :: "string option \<Rightarrow> string \<Rightarrow> string" where
  "or_default x d = (case x of None \<Rightarrow> d | Some v \<Rightarrow> if v = [] then d else v)"

fun transformError :: "raw_error \<Rightarrow> api_error" where
  "transformError (WithResponse status d t) =
     \<lparr> detail = or_default d ''An error occurred'', status_code = status, err_type = t \<rparr>"
| "transformError WithRequest =
     \<lparr> detail = ''Network error - please check your connection'', status_code = 0,
       err_type = Some ''network_error'' \<rparr>"
| "transformError (PlainError m) =
     \<lparr> detail = or_default (Some m) ''An unexpected error occurred'', status_code = 500,
       err_type = Some ''unknown_error'' \<rparr>"
| "transformError NonError =
     \<lparr> detail = ''An unexpected error occurred'', status_code = 500,
       err_type = Some ''unknown_error'' \<rparr>"

text \<open>
  \<^verbatim>\<open>ChatService.handleChatError\<close>: an object with a \<^verbatim>\<open>detail\<close> property becomes
  \<^verbatim>\<open>new Error(detail)\<close>; an \<^verbatim>\<open>Error\<close> instance is returned as it is; anything else becomes a
  fixed \<^verbatim>\<open>Error\<close>. Only the \<^verbatim>\<open>ApiError\<close> literal has a \<^verbatim>\<open>detail\<close>; raw axios errors and
  \<^verbatim>\<open>new Error\<close> values are \<^verbatim>\<open>Error\<close> instances.
\<close>

fun handleChatError :: "thrown \<Rightarrow> thrown" where
  "handleChatError (ApiErr a) = Err (detail a)"
| "handleChatError (Raw NonError) = Err ''An unexpected chat error occurred''"
| "handleChatError (Raw r) = Raw r"
| "handleChatError (Err m) = Err m"

text \<open>
  Every method of \<^verbatim>\<open>ChatService\<close> has the shape
  \<^verbatim>\<open>try { return (await api.X(...)).data } catch (error) { throw this.handleChatError(error) }\<close>:
  a rejection of the api layer is rethrown wrapped, a response is passed on.
\<close>

definition ChatService_call :: "thrown + 'a \<Rightarrow> thrown + 'a" where
  "ChatService_call out = (case out of Inl e \<Rightarrow> Inl (handleChatError e) | Inr d \<Rightarrow> Inr d)"

subsection \<open>loadMessages and loadMoreMessages\<close>

text \<open>
  \<^verbatim>\<open>loadMessages(chatId, page)\<close> up to its \<^verbatim>\<open>await\<close>: it sets \<^verbatim>\<open>isChatLoading\<close> and calls
  \<^verbatim>\<open>ChatService.getMessages\<close>. There is no test before the call.
\<close>

definition loadMessages_start :: "string \<Rightarrow> int \<Rightarrow> chat_state \<Rightarrow> chat_state \<times> request list" where
  "loadMessages_start chatId page s =
     (s\<lparr> isChatLoading := True \<rparr>, [GetMessages chatId page DEFAULT_PAGE_SIZE])"

text \<open>
  \<^verbatim>\<open>loadMessages\<close> from the moment \<^verbatim>\<open>ChatService.getMessages\<close> settles with \<open>out\<close>. The
  window is updated through \<^verbatim>\<open>setMessages\<close> (for a later page with the functional form
  \<^verbatim>\<open>prev => [...response.messages, ...prev]\<close>), so it is computed from the state at that
  moment. \<open>chatId\<close> is the conversation the request was issued for; the code does not
  look at it again. \<open>getErrorMessage\<close> is lib/utils' function, taken as a parameter.
\<close>

definition loadMessages_done ::
  "(thrown \<Rightarrow> string) \<Rightarrow> string \<Rightarrow> int \<Rightarrow> thrown + paginated_messages \<Rightarrow> chat_state \<Rightarrow> chat_state" where
  "loadMessages_done getErrorMessage chatId page out s =
     (case out of
        Inr response \<Rightarrow>
          s\<lparr> messages := (if page = 1 then pm_messages response
                           else pm_messages response @ messages s),
             hasMoreMessages := pm_has_next response,
             currentPage := page,
             isChatLoading := False \<rparr>
      | Inl e \<Rightarrow> s\<lparr> error := Some (getErrorMessage e), isChatLoading := False \<rparr>)"

text \<open>
  \<^verbatim>\<open>
  const loadMoreMessages = useCallback(async () => {
    if (!currentChat || !hasMoreMessages || isChatLoading) return;
    try { await loadMessages(currentChat.id, currentPage + 1); } catch ...
  \<close>
\<close>

definition loadMoreMessages :: "chat_state \<Rightarrow> chat_state \<times> request list" where
  "loadMoreMessages s =
     (case currentChat s of
        None \<Rightarrow> (s, [])
      | Some c \<Rightarrow>
          if hasMoreMessages s \<and> \<not> isChatLoading s
          then loadMessages_start (c_id c) (currentPage s + 1) s
          else (s, []))"

text \<open>
  The effect that follows a change of \<^verbatim>\<open>currentChat?.id\<close>:
  \<^verbatim>\<open>if (isAuthenticated && currentChat && currentChat.id !== "temp") loadMessages(currentChat.id, 1)\<close>.
\<close>

definition currentChat_effect :: "bool \<Rightarrow> chat_state \<Rightarrow> chat_state \<times> request list" where
  "currentChat_effect isAuthenticated s =
     (case currentChat s of
        None \<Rightarrow> (s, [])
      | Some c \<Rightarrow>
          if isAuthenticated \<and> c_id c \<noteq> ''temp'' then loadMessages_start (c_id c) 1 s
          else (s, []))"

subsection \<open>deleteChat\<close>

text \<open>\<^verbatim>\<open>deleteChat(chatId)\<close> up to \<^verbatim>\<open>await ChatService.deleteChat(chatId)\<close>.\<close>

definition deleteChat_start :: "string \<Rightarrow> chat_state \<Rightarrow> chat_state \<times> request list" where
  "deleteChat_start chatId s = (s\<lparr> isLoading := True, error := None \<rparr>, [DeleteChat chatId])"

text \<open>
  \<^verbatim>\<open>deleteChat\<close> from the moment the backend call settles. \<open>cur_id\<close> is \<^verbatim>\<open>currentChat?.id\<close> as
  the callback captured it. On success the \<^verbatim>\<open>setChats\<close> updater filters the list and, when
  the deleted conversation was the current one, either selects \<^verbatim>\<open>updatedChats[0]\<close> and
  calls \<^verbatim>\<open>loadMessages(nextChat.id, 1)\<close>, or shows the welcome message (through
  \<^verbatim>\<open>createNewChat\<close> when authenticated, inline otherwise).
\<close>

definition deleteChat_done ::
  "(thrown \<Rightarrow> string) \<Rightarrow> clock \<Rightarrow> bool \<Rightarrow> string option \<Rightarrow> string \<Rightarrow> thrown + unit
     \<Rightarrow> chat_state \<Rightarrow> chat_state \<times> request list" where
  "deleteChat_done getErrorMessage clk isAuthenticated cur_id chatId out s =
     (case out of
        Inl e \<Rightarrow> (s\<lparr> error := Some (getErrorMessage e), isLoading := False \<rparr>, [])
      | Inr _ \<Rightarrow>
          (let updatedChats = filter (\<lambda>c. c_id c \<noteq> chatId) (chats s);
               (s1, reqs) =
                 (if cur_id = Some chatId then
                    (case updatedChats of
                       nextChat # _ \<Rightarrow>
                         loadMessages_start (c_id nextChat) 1
                           (s\<lparr> currentChat := Some nextChat, currentPage := 1 \<rparr>)
                     | [] \<Rightarrow>
                         if isAuthenticated then createNewChat clk s
                         else (s\<lparr> currentChat := None, messages := [getWelcomeMessage clk] \<rparr>, []))
                  else (s, []))
           in (s1\<lparr> chats := updatedChats, isLoading := False \<rparr>, reqs)))"

text \<open>
  The whole call when nothing else touches the state while the backend call is in flight:
  the captured id is the one of the state the call starts from.
\<close>

definition deleteChat ::
  "(thrown \<Rightarrow> string) \<Rightarrow> clock \<Rightarrow> bool \<Rightarrow> string \<Rightarrow> thrown + unit
     \<Rightarrow> chat_state \<Rightarrow> chat_state \<times> request list" where
  "deleteChat getErrorMessage clk isAuthenticated chatId out s =
     (let (s0, reqs0) = deleteChat_start chatId s;
          (s1, reqs1) = deleteChat_done getErrorMessage clk isAuthenticated
                          (map_option c_id (currentChat s)) chatId out s0
      in (s1, reqs0 @ reqs1))"

subsection \<open>sendMessage\<close>

text \<open>
  The white space and line terminators of ECMAScript, each as its UTF-8 bytes: U+0009 to
  U+000D, U+0020, U+00A0 (no-break space), U+1680, U+2000 to U+200A, U+2028, U+2029,
  U+202F, U+205F, U+3000 and U+FEFF.
\<close>

definition white_space :: "string list" where
  "white_space =
     [[CHR 0x09], [CHR 0x0A], [CHR 0x0B], [CHR 0x0C], [CHR 0x0D], [CHR 0x20],
      [CHR 0xC2, CHR 0xA0],
      [CHR 0xE1, CHR 0x9A, CHR 0x80],
      [CHR 0xE2, CHR 0x80, CHR 0x80], [CHR 0xE2, CHR 0x80, CHR 0x81],
      [CHR 0xE2, CHR 0x80, CHR 0x82], [CHR 0xE2, CHR 0x80, CHR 0x83],
      [CHR 0xE2, CHR 0x80, CHR 0x84], [CHR 0xE2, CHR 0x80, CHR 0x85],
      [CHR 0xE2, CHR 0x80, CHR 0x86], [CHR 0xE2, CHR 0x80, CHR 0x87],
      [CHR 0xE2, CHR 0x80, CHR 0x88], [CHR 0xE2, CHR 0x80, CHR 0x89],
      [CHR 0xE2, CHR 0x80, CHR 0x8A],
      [CHR 0xE2, CHR 0x80, CHR 0xA8], [CHR 0xE2, CHR 0x80, CHR 0xA9],
      [CHR 0xE2, CHR 0x80, CHR 0xAF],
      [CHR 0xE2, CHR 0x81, CHR 0x9F],
      [CHR 0xE3, CHR 0x80, CHR 0x80],
      [CHR 0xEF, CHR 0xBB, CHR 0xBF]]"

text \<open>\<open>strip ws t\<close> takes from the front of \<open>t\<close> every leading occurrence of a member of \<open>ws\<close>.\<close>

function strip :: "string list \<Rightarrow> string \<Rightarrow> string" where
  "strip ws t =
     (case find (\<lambda>w. w \<noteq> [] \<and> take (length w) t = w) ws of
        None \<Rightarrow> t
      | Some w \<Rightarrow> strip ws (drop (length w) t))"
  by pat_completeness auto
termination
proof (relation "measure (\<lambda>(ws, t). length t)")
  show "wf (measure (\<lambda>(ws, t). length t))"
    by simp
next
  fix ws :: "string list" and t w :: string
  assume "find (\<lambda>w. w \<noteq> [] \<and> take (length w) t = w) ws = Some w"
  then have w: "w \<noteq> []" and p: "take (length w) t = w"
    by (auto simp: find_Some_iff)
  from p have "length (take (length w) t) = length w"
    by simp
  then have "length w \<le> length t"
    by simp
  with w show "((ws, drop (length w) t), (ws, t)) \<in> measure (\<lambda>(ws, t). length t)"
    by (cases w) auto
qed

declare strip.simps [simp del]

text \<open>
  \<^verbatim>\<open>String.prototype.trim\<close>: white space and line terminators are stripped from both
  ends. A sequence ends the string exactly when its reverse begins the reversed string.
\<close>

definition trim :: "string \<Rightarrow> string" where
  "trim t = rev (strip (map rev white_space) (rev (strip white_space t)))"

text \<open>
  The test that guards a retry:
  \<^verbatim>\<open>
  if (error && typeof error === "object" && "status_code" in error && "type" in error) {
    const apiError = error as { status_code: number; type: string };
    if (apiError.status_code === 0 || apiError.type === "network_error") {
  \<close>
  Of the values that can be thrown, only the \<^verbatim>\<open>ApiError\<close> literal has the properties
  \<^verbatim>\<open>status_code\<close> and \<^verbatim>\<open>type\<close>: an \<^verbatim>\<open>Error\<close> instance has \<^verbatim>\<open>message\<close>, \<^verbatim>\<open>name\<close> and \<^verbatim>\<open>stack\<close>, an
  axios error adds \<^verbatim>\<open>code\<close>, \<^verbatim>\<open>config\<close>, \<^verbatim>\<open>request\<close>, \<^verbatim>\<open>response\<close> and \<^verbatim>\<open>status\<close>.
\<close>

fun is_network_error :: "thrown \<Rightarrow> bool" where
  "is_network_error (ApiErr a) = (status_code a = 0 \<or> err_type a = Some ''network_error'')"
| "is_network_error (Raw r) = False"
| "is_network_error (Err m) = False"

definition maxRetries :: nat where
  "maxRetries = 2"

text \<open>
  The retry loop.
  \<^verbatim>\<open>
  let response; let retryCount = 0; const maxRetries = 2;
  while (retryCount <= maxRetries) {
    try { response = await ChatService.sendMessage(messageData); break; }
    catch (error) {
      if (<network error>) {
        retryCount++;
        if (retryCount <= maxRetries) {
          await new Promise((resolve) => setTimeout(resolve, 1000 * retryCount));
          continue;
        }
      }
      throw error;
    }
  }
  \<close>
  \<open>svc k\<close> is what the \<open>k\<close>-th call of \<^verbatim>\<open>ChatService.sendMessage\<close> settles with (counted from
  0). The result is what the loop leaves (\<open>Inl\<close> the rethrown error, \<open>Inr\<close> the value of
  \<^verbatim>\<open>response\<close>, \<open>None\<close> when it is still undefined or falsy), the number of calls made and
  the delays waited, in milliseconds.
\<close>

function retry_loop ::
  "(nat \<Rightarrow> thrown + chat_message_response option) \<Rightarrow> nat \<Rightarrow> nat \<Rightarrow> nat list
     \<Rightarrow> (thrown + chat_message_response option) \<times> nat \<times> nat list" where
  "retry_loop svc retryCount calls delays =
     (if retryCount \<le> maxRetries then
        (case svc calls of
           Inr response \<Rightarrow> (Inr response, Suc calls, delays)
         | Inl e \<Rightarrow>
             if is_network_error e then
               (if Suc retryCount \<le> maxRetries
                then retry_loop svc (Suc retryCount) (Suc calls) (delays @ [1000 * Suc retryCount])
                else (Inl e, Suc calls, delays))
             else (Inl e, Suc calls, delays))
      else (Inr None, calls, delays))"
  by pat_completeness auto
termination
  by (relation "measure (\<lambda>(svc, retryCount, calls, delays). Suc maxRetries - retryCount)") auto

declare retry_loop.simps [simp del]

text \<open>
  The validation after the loop: \<^verbatim>\<open>if (!response || !response.message) throw new
  Error("Invalid response from server")\<close>.
\<close>

definition validate_response ::
  "thrown + chat_message_response option \<Rightarrow> thrown + message \<times> chat option" where
  "validate_response res =
     (case res of
        Inl e \<Rightarrow> Inl e
      | Inr None \<Rightarrow> Inl (Err ''Invalid response from server'')
      | Inr (Some response) \<Rightarrow>
          (case resp_message response of
             None \<Rightarrow> Inl (Err ''Invalid response from server'')
           | Some m \<Rightarrow> Inr (m, resp_chat response)))"

text \<open>\<^verbatim>\<open>currentChat?.id || "temp"\<close>: null, undefined and the empty string give \<^verbatim>\<open>"temp"\<close>.\<close>

definition id_or_temp :: "string option \<Rightarrow> string" where
  "id_or_temp cur_id = or_default cur_id ''temp''"

definition userMessage :: "clock \<Rightarrow> string option \<Rightarrow> string \<Rightarrow> message" where
  "userMessage clk cur_id text =
     \<lparr> m_id = ''user-'' @ decimal (now_ms clk),
       m_chat_id = id_or_temp cur_id,
       m_role = User,
       m_content = text,
       m_metadata = None,
       m_created_at = now_iso clk \<rparr>"

definition apology :: string where
  "apology = ''I'm sorry, I'm having trouble processing your request right now. Please try again later.''"

definition errorMsg :: "clock \<Rightarrow> string option \<Rightarrow> message" where
  "errorMsg clk cur_id =
     \<lparr> m_id = ''error-'' @ decimal (now_ms clk),
       m_chat_id = id_or_temp cur_id,
       m_role = Assistant,
       m_content = apology,
       m_metadata = None,
       m_created_at = now_iso clk \<rparr>"

text \<open>
  \<^verbatim>\<open>chat_id: currentChat?.id === "temp" ? undefined : currentChat?.id\<close>.
\<close>

definition messageData :: "string option \<Rightarrow> string \<Rightarrow> chat_message_request" where
  "messageData cur_id text =
     \<lparr> req_message = text, req_chat_id = (if cur_id = Some ''temp'' then None else cur_id) \<rparr>"

text \<open>
  What the \<^verbatim>\<open>try\<close> block of \<^verbatim>\<open>sendMessage\<close> ends with, given what the api layer's
  \<^verbatim>\<open>post\<close> settles with on each attempt: every attempt goes through
  \<^verbatim>\<open>ChatService.sendMessage\<close>, then the loop's result is validated.
\<close>

definition send_attempts ::
  "(nat \<Rightarrow> thrown + chat_message_response option)
     \<Rightarrow> (thrown + chat_message_response option) \<times> nat \<times> nat list" where
  "send_attempts api_post = retry_loop (\<lambda>k. ChatService_call (api_post k)) 0 0 []"

definition send_outcome ::
  "(nat \<Rightarrow> thrown + chat_message_response option) \<Rightarrow> thrown + message \<times> chat option" where
  "send_outcome api_post = validate_response (fst (send_attempts api_post))"

text \<open>
  \<^verbatim>\<open>sendMessage(text)\<close> is cut like the other callbacks. The first part runs, for a call
  that has passed the test \<^verbatim>\<open>if (!text.trim() || isLoading) return\<close>, up to the first
  \<^verbatim>\<open>await\<close>: the user message is appended with \<^verbatim>\<open>setMessages((prev) => [...prev, userMessage])\<close>,
  \<^verbatim>\<open>isLoading\<close> is set and the error cleared. \<open>clk\<close> is the clock reading at that moment.
\<close>

definition sendMessage_start :: "clock \<Rightarrow> string \<Rightarrow> chat_state \<Rightarrow> chat_state" where
  "sendMessage_start clk text s =
     s\<lparr> messages := messages s @ [userMessage clk (map_option c_id (currentChat s)) text],
        isLoading := True, error := None \<rparr>"

text \<open>
  The second part runs when the \<^verbatim>\<open>try\<close> block has ended with \<open>outcome\<close>, on the state \<open>s\<close>
  as it is by then; between the two parts other callbacks may have run. \<open>cur_id\<close> is
  \<^verbatim>\<open>currentChat?.id\<close> as the callback captured it, \<open>clk'\<close> the clock reading when the error
  message is made. All updates of the window and of the list are functional
  (\<^verbatim>\<open>setMessages((prev) => [...prev, x])\<close>, \<^verbatim>\<open>setChats((prev) => [chat, ...prev])\<close>); the
  \<^verbatim>\<open>finally\<close> clause clears \<^verbatim>\<open>isLoading\<close>.
\<close>

definition sendMessage_done ::
  "(thrown \<Rightarrow> string) \<Rightarrow> clock \<Rightarrow> string option \<Rightarrow> thrown + message \<times> chat option
     \<Rightarrow> chat_state \<Rightarrow> chat_state" where
  "sendMessage_done getErrorMessage clk' cur_id outcome s =
     (case outcome of
        Inr (m, new_chat) \<Rightarrow>
          (let s' = s\<lparr> messages := messages s @ [m] \<rparr>
           in case new_chat of
                None \<Rightarrow> s'
              | Some c \<Rightarrow>
                  if Some (c_id c) \<noteq> cur_id
                  then s'\<lparr> currentChat := Some c, chats := c # chats s' \<rparr>
                  else s')
      | Inl e \<Rightarrow>
          s\<lparr> error := Some (getErrorMessage e),
             messages := messages s @ [errorMsg clk' cur_id] \<rparr>)
     \<lparr> isLoading := False \<rparr>"

text \<open>
  The whole call when nothing else touches the state while the backend calls are in
  flight: the second part runs on the state the first part left. The result is the final
  state, the backend calls issued and the delays waited.
\<close>

definition sendMessage ::
  "(thrown \<Rightarrow> string) \<Rightarrow> clock \<Rightarrow> clock \<Rightarrow> (nat \<Rightarrow> thrown + chat_message_response option)
     \<Rightarrow> string \<Rightarrow> chat_state \<Rightarrow> chat_state \<times> request list \<times> nat list" where
  "sendMessage getErrorMessage clk clk' api_post text s =
     (if trim text = [] \<or> isLoading s then (s, [], [])
      else
        (let cur_id = map_option c_id (currentChat s);
             (res, calls, delays) = send_attempts api_post
         in (sendMessage_done getErrorMessage clk' cur_id (validate_response res)
               (sendMessage_start clk text s),
             replicate calls (PostMessage (messageData cur_id text)), delays)))"

section \<open>Conversation list (ChatService.getChats)\<close>









section \<open>Token lifecycle (lib/api.ts)\<close>

text \<open>
  What the interceptors act on besides the request: \<^verbatim>\<open>localStorage\<close> (a map from keys to
  strings), \<^verbatim>\<open>window.location.href\<close>, and the network, of which only the calls of
  \<^verbatim>\<open>refreshTokens\<close> are recorded: \<open>refresh_calls\<close> lists the refresh tokens posted to
  \<^verbatim>\<open>/auth/refresh\<close> so far, in order.
\<close>

record client =
  storage :: "string \<rightharpoonup> string"
  location_href :: string
  refresh_calls :: "string list"

text \<open>The fields of an axios request configuration that the interceptors read or write.\<close>

record request_config =
  url :: "string option"
  retry :: bool
  authorization :: "string option"

text \<open>\<^verbatim>\<open>t.includes(sub)\<close>.\<close>

fun str_includes :: "string \<Rightarrow> string \<Rightarrow> bool" where
  "str_includes [] sub = (sub = [])"
| "str_includes (c # cs) sub = (take (length sub) (c # cs) = sub \<or> str_includes cs sub)"

text \<open>
  \<^verbatim>\<open>
  const isAuthEndpoint =
    originalRequest?.url?.includes("/auth/") &&
    (originalRequest?.url?.includes("/login") || ... "/register" || "/signin" ||
     "/forgot-password" || "/reset-password");
  \<close>
\<close>

definition isAuthEndpoint :: "string option \<Rightarrow> bool" where
  "isAuthEndpoint u =
     (case u of
        None \<Rightarrow> False
      | Some t \<Rightarrow>
          str_includes t ''/auth/'' \<and>
          (str_includes t ''/login'' \<or> str_includes t ''/register'' \<or> str_includes t ''/signin'' \<or>
           str_includes t ''/forgot-password'' \<or> str_includes t ''/reset-password''))"

text \<open>
  \<^verbatim>\<open>getStoredTokens\<close>: \<^verbatim>\<open>tokens ? JSON.parse(tokens) : null\<close>, and null when parsing throws.
  \<open>parse\<close> stands for \<^verbatim>\<open>JSON.parse\<close> read as a \<^verbatim>\<open>TokenResponse\<close> (\<open>None\<close> when it throws or
  yields null); a missing field reads as the empty string, which is falsy like undefined.
\<close>

definition getStoredTokens :: "(string \<Rightarrow> token_response option) \<Rightarrow> client \<Rightarrow> token_response option" where
  "getStoredTokens parse c =
     (case storage c STORAGE_KEYS_TOKENS of
        None \<Rightarrow> None
      | Some t \<Rightarrow> if t = [] then None else parse t)"

definition storeTokens :: "(token_response \<Rightarrow> string) \<Rightarrow> token_response \<Rightarrow> client \<Rightarrow> client" where
  "storeTokens stringify tokens c =
     c\<lparr> storage := (storage c)(STORAGE_KEYS_TOKENS \<mapsto> stringify tokens) \<rparr>"

definition clearStoredTokens :: "client \<Rightarrow> client" where
  "clearStoredTokens c = c\<lparr> storage := (storage c)(STORAGE_KEYS_TOKENS := None) \<rparr>"

text \<open>\<^verbatim>\<open>error.response?.status\<close>.\<close>

fun response_status :: "raw_error \<Rightarrow> int option" where
  "response_status (WithResponse st d t) = Some st"
| "response_status e = None"

text \<open>
  How a run of the response interceptor's error handler leaves off: it waits for the
  refresh call it has just issued, it re-issues the original request
  (\<^verbatim>\<open>return apiClient(originalRequest)\<close>), or it rejects.
\<close>

datatype step = AwaitRefresh string | Reissue | Reject thrown

text \<open>
  The error handler of the response interceptor, from its call to its \<^verbatim>\<open>await\<close>:
  \<^verbatim>\<open>
  if (error.response?.status === 401 && !originalRequest._retry && !isAuthEndpoint) {
    originalRequest._retry = true;
    try {
      const tokens = getStoredTokens();
      if (tokens?.refresh_token) {
        const newTokens = await refreshTokens(tokens.refresh_token);
        ...
  }
  return Promise.reject(transformError(error));
  \<close>
  Nothing is consulted before \<^verbatim>\<open>refreshTokens\<close> is called except the request's own
  \<^verbatim>\<open>_retry\<close> mark and the stored tokens.
\<close>

definition on_response_error ::
  "(string \<Rightarrow> token_response option) \<Rightarrow> raw_error \<Rightarrow> request_config \<Rightarrow> client
     \<Rightarrow> client \<times> request_config \<times> step" where
  "on_response_error parse err req c =
     (if response_status err = Some 401 \<and> \<not> retry req \<and> \<not> isAuthEndpoint (url req) then
        (let req' = req\<lparr> retry := True \<rparr>
         in case getStoredTokens parse c of
              None \<Rightarrow> (c, req', Reject (ApiErr (transformError err)))
            | Some tokens \<Rightarrow>
                if refresh_token tokens = [] then (c, req', Reject (ApiErr (transformError err)))
                else (c\<lparr> refresh_calls := refresh_calls c @ [refresh_token tokens] \<rparr>, req',
                      AwaitRefresh (refresh_token tokens)))
      else (c, req, Reject (ApiErr (transformError err))))"

text \<open>
  The same handler from the moment \<^verbatim>\<open>refreshTokens\<close> settles with \<open>out\<close>:
  \<^verbatim>\<open>
        storeTokens(newTokens);
        originalRequest.headers.Authorization = `Bearer ${newTokens.access_token}`;
        return apiClient(originalRequest);
      }
    } catch (refreshError) {
      if (!isAuthEndpoint) { clearStoredTokens(); window.location.href = "/"; }
      return Promise.reject(refreshError);
    }
  \<close>
  \<open>stringify\<close> stands for \<^verbatim>\<open>JSON.stringify\<close>; \<^verbatim>\<open>localStorage.setItem\<close> is taken not to throw.
  \<open>out\<close> is \<open>Inl\<close> the raw error of the bare \<^verbatim>\<open>axios.post\<close> in \<^verbatim>\<open>refreshTokens\<close>, which no
  interceptor transforms.
\<close>

definition on_refresh_settled ::
  "(token_response \<Rightarrow> string) \<Rightarrow> raw_error + token_response \<Rightarrow> request_config \<Rightarrow> client
     \<Rightarrow> client \<times> request_config \<times> step" where
  "on_refresh_settled stringify out req c =
     (case out of
        Inr newTokens \<Rightarrow>
          (storeTokens stringify newTokens c,
           req\<lparr> authorization := Some (''Bearer '' @ access_token newTokens) \<rparr>,
           Reissue)
      | Inl refreshError \<Rightarrow>
          (if isAuthEndpoint (url req) then c
           else (clearStoredTokens c)\<lparr> location_href := ''/'' \<rparr>,
           req, Reject (Raw refreshError)))"

text \<open>
  Several failed responses handled one after the other, before any refresh call settles:
  each is run up to its \<^verbatim>\<open>await\<close>.
\<close>

fun receive_errors ::
  "(string \<Rightarrow> token_response option) \<Rightarrow> (raw_error \<times> request_config) list \<Rightarrow> client \<Rightarrow> client" where
  "receive_errors parse [] c = c"
| "receive_errors parse ((err, req) # es) c =
     receive_errors parse es (fst (on_response_error parse err req c))"

section \<open>Properties of the window and of a failing response\<close>

text \<open>
  The window invariant of the data model: no two messages share an id, and the messages
  are in strictly ascending order of \<^verbatim>\<open>created_at\<close>. The code never compares two
  \<^verbatim>\<open>created_at\<close> strings, so the order is taken through a reading \<open>ts\<close> of such a string as
  an instant; every statement below holds for any reading.
\<close>

definition window_ok :: "(string \<Rightarrow> nat) \<Rightarrow> message list \<Rightarrow> bool" where
  "window_ok ts w =
     (distinct (map m_id w) \<and>
      sorted_wrt (\<lambda>a b. ts (m_created_at a) < ts (m_created_at b)) w)"

text \<open>
  The test under which the response interceptor goes for a refresh:
  \<^verbatim>\<open>error.response?.status === 401 && !originalRequest._retry && !isAuthEndpoint\<close>.
\<close>

definition triggers_refresh :: "raw_error \<times> request_config \<Rightarrow> bool" where
  "triggers_refresh p =
     (response_status (fst p) = Some 401 \<and> \<not> retry (snd p) \<and> \<not> isAuthEndpoint (url (snd p)))"

text \<open>
  A run of successful loads of one conversation, each taken from call to completion:
  the pages asked for, with the responses they got.
\<close>

fun load_pages ::
  "(thrown \<Rightarrow> string) \<Rightarrow> string \<Rightarrow> (int \<times> paginated_messages) list \<Rightarrow> chat_state \<Rightarrow> chat_state" where
  "load_pages getErrorMessage chatId [] s = s"
| "load_pages getErrorMessage chatId ((page, r) # rest) s =
     load_pages getErrorMessage chatId rest
       (loadMessages_done getErrorMessage chatId page (Inr r)
          (fst (loadMessages_start chatId page s)))"

section \<open>Example values\<close>

text \<open>Concrete inputs on which the statements below are run.\<close>

definition clk0 :: clock where
  "clk0 = \<lparr> now_ms = 7, now_iso = ''2024-01-01T00:00:07.000Z'' \<rparr>"

definition clk1 :: clock where
  "clk1 = \<lparr> now_ms = 9, now_iso = ''2024-01-01T00:00:09.000Z'' \<rparr>"

text \<open>A \<^verbatim>\<open>getErrorMessage\<close> that yields the same text for every error.\<close>

definition no_message :: "thrown \<Rightarrow> string" where
  "no_message e = ''failed''"

definition msg1 :: message where
  "msg1 = \<lparr> m_id = ''m1'', m_chat_id = ''a'', m_role = User, m_content = ''hello'',
            m_metadata = None, m_created_at = ''2024-01-01T00:00:01.000Z'' \<rparr>"

definition msg2 :: message where
  "msg2 = \<lparr> m_id = ''m2'', m_chat_id = ''a'', m_role = Assistant, m_content = ''hi there'',
            m_metadata = None, m_created_at = ''2024-01-01T00:00:02.000Z'' \<rparr>"

definition msgB :: message where
  "msgB = \<lparr> m_id = ''b1'', m_chat_id = ''b'', m_role = User, m_content = ''other'',
            m_metadata = None, m_created_at = ''2024-01-01T00:00:03.000Z'' \<rparr>"

definition chat_of :: "string \<Rightarrow> chat" where
  "chat_of i =
     \<lparr> c_id = i, c_user_id = Some ''u1'', c_title = None, c_is_anonymous = False,
       c_created_at = ''2024-01-01T00:00:00.000Z'', c_updated_at = None,
       c_message_count = None \<rparr>"

definition page_of :: "message list \<Rightarrow> int \<Rightarrow> bool \<Rightarrow> paginated_messages" where
  "page_of ms p nxt =
     \<lparr> pm_messages = ms, pm_total = int (length ms), pm_page = p,
       pm_page_size = DEFAULT_PAGE_SIZE, pm_has_next = nxt, pm_has_previous = (1 < p) \<rparr>"

text \<open>
  Two conversations, the second one current with one message in the window, and a load
  in flight.
\<close>

definition loading_state :: chat_state where
  "loading_state =
     initial_state\<lparr> chats := [chat_of ''a'', chat_of ''b''],
                    currentChat := Some (chat_of ''b''),
                    messages := [msgB], isChatLoading := True \<rparr>"

text \<open>One conversation, which is the current one.\<close>

definition last_state :: chat_state where
  "last_state =
     initial_state\<lparr> chats := [chat_of ''b''], currentChat := Some (chat_of ''b''),
                    messages := [msgB] \<rparr>"

text \<open>The state after page 3 of a conversation has been loaded, with more to come.\<close>

definition paged_state :: chat_state where
  "paged_state =
     loadMessages_done no_message ''a'' 3 (Inr (page_of [msg1] 3 True))
       (last_state\<lparr> currentChat := Some (chat_of ''a'') \<rparr>)"

text \<open>The same state with the load of the next page started.\<close>

definition more_loading_state :: chat_state where
  "more_loading_state = fst (loadMessages_start ''a'' 4 paged_state)"

text \<open>One conversation, current, whose first page has been asked for and has not arrived.\<close>

definition pending_state :: chat_state where
  "pending_state =
     fst (loadMessages_start ''b'' 1
            (initial_state\<lparr> chats := [chat_of ''b''], currentChat := Some (chat_of ''b'') \<rparr>))"

text \<open>
  A reading of ISO-8601 UTC timestamps of one shape as numbers: the digits of the string,
  read as one decimal number.
\<close>

definition is_digit :: "char \<Rightarrow> bool" where
  "is_digit c = (48 \<le> (of_char c :: nat) \<and> (of_char c :: nat) \<le> 57)"

definition iso_key :: "string \<Rightarrow> nat" where
  "iso_key t = foldl (\<lambda>n c. 10 * n + (of_char c - 48)) 0 (filter is_digit t)"

text \<open>The api layer rejecting every attempt with the normalized network error.\<close>

definition unreachable :: "nat \<Rightarrow> thrown + chat_message_response option" where
  "unreachable k = Inl (ApiErr (transformError WithRequest))"


definition tokens0 :: token_response where
  "tokens0 =
     \<lparr> access_token = ''acc0'', refresh_token = ''ref0'', token_type = ''bearer'',
       expires_in = 1800 \<rparr>"

text \<open>Stand-ins for \<^verbatim>\<open>JSON.parse\<close> and \<^verbatim>\<open>JSON.stringify\<close> on the one blob of the examples.\<close>

definition parse0 :: "string \<Rightarrow> token_response option" where
  "parse0 t = (if t = ''tokens0'' then Some tokens0 else None)"

definition stringify0 :: "token_response \<Rightarrow> string" where
  "stringify0 t = ''tokens0''"

text \<open>Storage holding both persisted entries.\<close>

definition client0 :: client where
  "client0 =
     \<lparr> storage = [STORAGE_KEYS_USER \<mapsto> ''user0'', STORAGE_KEYS_TOKENS \<mapsto> ''tokens0''],
       location_href = ''/chat'', refresh_calls = [] \<rparr>"

definition request_of :: "string \<Rightarrow> request_config" where
  "request_of u = \<lparr> url = Some u, retry = False, authorization = Some ''Bearer acc0'' \<rparr>"

definition unauthorized :: raw_error where
  "unauthorized = WithResponse 401 (Some ''Token expired'') None"

section \<open>Helper lemmas\<close>

lemma handleChatError_not_network: "\<not> is_network_error (handleChatError e)"
  by (cases e rule: handleChatError.cases) simp_all

lemma retry_loop_no_retry:
  assumes "\<And>e. svc 0 = Inl e \<Longrightarrow> \<not> is_network_error e"
  shows "retry_loop svc 0 0 [] = (svc 0, 1, [])"
  using assms by (subst retry_loop.simps) (simp add: maxRetries_def split: sum.splits)

text \<open>
  Whatever the api layer does, \<^verbatim>\<open>sendMessage\<close> calls the backend once: the error that
  reaches the loop has been through \<^verbatim>\<open>handleChatError\<close> and no longer has a
  \<^verbatim>\<open>status_code\<close> or a \<^verbatim>\<open>type\<close>.
\<close>

lemma send_attempts_once: "send_attempts api_post = (ChatService_call (api_post 0), 1, [])"
  unfolding send_attempts_def
  by (rule retry_loop_no_retry)
     (auto simp: ChatService_call_def handleChatError_not_network split: sum.splits)

text \<open>
  The loop on its own, handed the normalized network error unwrapped, does retry: three
  calls, with delays of 1000 and 2000 milliseconds.
\<close>

lemma retry_loop_network_error:
  "retry_loop (\<lambda>k. Inl (ApiErr (transformError WithRequest))) 0 0 [] =
     (Inl (ApiErr (transformError WithRequest)), 3, [1000, 2000])"
  by (simp add: retry_loop.simps maxRetries_def)

lemma trim_hi: "trim ''hi'' = ''hi''"
  by (simp add: trim_def white_space_def strip.simps)

text \<open>A text of one no-break space is empty once trimmed, so \<^verbatim>\<open>sendMessage\<close> returns at once.\<close>

lemma trim_no_break_space: "trim [CHR 0xC2, CHR 0xA0] = []"
  by (simp add: trim_def white_space_def strip.simps)

lemma window_ok_append:
  "window_ok ts (xs @ ys) \<longleftrightarrow>
     window_ok ts xs \<and> window_ok ts ys \<and>
     (\<forall>x\<in>set xs. \<forall>y\<in>set ys. m_id x \<noteq> m_id y \<and> ts (m_created_at x) < ts (m_created_at y))"
  by (auto simp: window_ok_def sorted_wrt_append)

text \<open>
  A run of loads of pages other than the first leaves the pages in the window in the
  reverse of the order they were loaded in, in front of what was there.
\<close>

lemma load_pages_prepends:
  "list_all (\<lambda>p. fst p \<noteq> 1) rs \<Longrightarrow>
   messages (load_pages gem chatId rs s) = concat (rev (map (pm_messages \<circ> snd) rs)) @ messages s"
proof (induction rs arbitrary: s)
  case Nil
  then show ?case by simp
next
  case (Cons p rs)
  obtain page r where p: "p = (page, r)" by (cases p)
  from Cons.prems have "page \<noteq> 1" and rest: "list_all (\<lambda>p. fst p \<noteq> 1) rs"
    by (simp_all add: p)
  then show ?case
    by (simp add: p Cons.IH [OF rest] loadMessages_done_def loadMessages_start_def)
qed

lemma on_response_error_storage: "storage (fst (on_response_error parse err req c)) = storage c"
  by (simp add: on_response_error_def Let_def split: option.splits)

lemma getStoredTokens_cong:
  "storage c' = storage c \<Longrightarrow> getStoredTokens parse c' = getStoredTokens parse c"
  by (simp add: getStoredTokens_def)

lemma iso_key_examples:
  "iso_key (m_created_at msg1) < iso_key (m_created_at msg2)"
  "iso_key (m_created_at msg2) < iso_key (m_created_at msgB)"
  "iso_key (m_created_at msg1) < iso_key (m_created_at msgB)"
  by (simp_all add: iso_key_def is_digit_def msg1_def msg2_def msgB_def)

section \<open>Token lifecycle\<close>

text \<open>
  C1, as the code has it. There is no single-flight guard: every request that is not
  exempt and not yet retried and that receives a 401 while a refresh token is stored
  issues a refresh call of its own, whether or not another refresh is in flight. So when
  \<open>n\<close> such responses are handled before any refresh settles, \<open>n\<close> refresh calls are
  issued, each with the stored refresh token.
\<close>

theorem refresh_call_per_401:
  assumes "getStoredTokens parse c = Some tokens" and "refresh_token tokens \<noteq> []"
    and "list_all triggers_refresh es"
  shows "refresh_calls (receive_errors parse es c) =
           refresh_calls c @ replicate (length es) (refresh_token tokens)"
  using assms
proof (induction es arbitrary: c)
  case Nil
  then show ?case by simp
next
  case (Cons p es)
  obtain err req where p: "p = (err, req)" by (cases p)
  let ?c' = "fst (on_response_error parse err req c)"
  have tr: "response_status err = Some 401 \<and> \<not> retry req \<and> \<not> isAuthEndpoint (url req)"
    using Cons.prems(3) by (simp add: p triggers_refresh_def)
  have calls: "refresh_calls ?c' = refresh_calls c @ [refresh_token tokens]"
    using tr Cons.prems(1,2) by (simp add: on_response_error_def)
  have "getStoredTokens parse ?c' = Some tokens"
    using Cons.prems(1) getStoredTokens_cong [OF on_response_error_storage] by metis
  then have "refresh_calls (receive_errors parse es ?c') =
               refresh_calls ?c' @ replicate (length es) (refresh_token tokens)"
    using Cons.IH Cons.prems(2,3) by simp
  then show ?case by (simp add: p calls replicate_app_Cons_same)
qed

theorem refresh_call_per_401_witness:
  "getStoredTokens parse0 client0 = Some tokens0 \<and> refresh_token tokens0 \<noteq> [] \<and>
   list_all triggers_refresh
     [(unauthorized, request_of ''/chat''), (unauthorized, request_of ''/chat/a/messages'')] \<and>
   refresh_calls
     (receive_errors parse0
        [(unauthorized, request_of ''/chat''), (unauthorized, request_of ''/chat/a/messages'')]
        client0) = [''ref0'', ''ref0'']"
proof -
  have a: "getStoredTokens parse0 client0 = Some tokens0"
    by (simp add: getStoredTokens_def client0_def parse0_def STORAGE_KEYS_USER_def
        STORAGE_KEYS_TOKENS_def)
  have b: "refresh_token tokens0 \<noteq> []"
    by (simp add: tokens0_def)
  have c: "list_all triggers_refresh
             [(unauthorized, request_of ''/chat''), (unauthorized, request_of ''/chat/a/messages'')]"
    by (simp add: triggers_refresh_def unauthorized_def request_of_def isAuthEndpoint_def)
  show ?thesis
    using refresh_call_per_401 [OF a b c] a b c by (simp add: client0_def tokens0_def)
qed

text \<open>
  Against C1 as stated: the first 401 leaves its handler waiting for the refresh it
  issued; a second request receives its 401 before that refresh settles, and a second
  refresh call goes out.
\<close>

theorem single_flight_counterexample:
  "snd (snd (on_response_error parse0 unauthorized (request_of ''/chat'') client0)) =
     AwaitRefresh ''ref0'' \<and>
   refresh_calls
     (receive_errors parse0 [(unauthorized, request_of ''/chat/a/messages'')]
        (fst (on_response_error parse0 unauthorized (request_of ''/chat'') client0))) =
     [''ref0'', ''ref0'']"
  by (simp add: on_response_error_def unauthorized_def request_of_def isAuthEndpoint_def
      getStoredTokens_def client0_def parse0_def tokens0_def STORAGE_KEYS_USER_def
      STORAGE_KEYS_TOKENS_def)

text \<open>
  C8, as the code has it. When the refresh call fails for a request that is not exempt,
  the serialized TokenPair entry is removed from storage, the location is set to
  \<^verbatim>\<open>"/"\<close>, and the handler rejects with the refresh failure itself.
\<close>

theorem refresh_failure_clears_tokens:
  assumes "\<not> isAuthEndpoint (url req)"
  shows "storage (fst (on_refresh_settled stringify (Inl refreshError) req c)) STORAGE_KEYS_TOKENS = None \<and>
         location_href (fst (on_refresh_settled stringify (Inl refreshError) req c)) = ''/'' \<and>
         snd (snd (on_refresh_settled stringify (Inl refreshError) req c)) = Reject (Raw refreshError)"
  using assms
  by (simp add: on_refresh_settled_def clearStoredTokens_def)

theorem refresh_failure_clears_tokens_witness:
  "\<not> isAuthEndpoint (url (request_of ''/chat'')) \<and>
   storage (fst (on_refresh_settled stringify0 (Inl WithRequest) (request_of ''/chat'') client0))
     STORAGE_KEYS_TOKENS = None \<and>
   location_href (fst (on_refresh_settled stringify0 (Inl WithRequest) (request_of ''/chat'') client0)) = ''/'' \<and>
   snd (snd (on_refresh_settled stringify0 (Inl WithRequest) (request_of ''/chat'') client0)) =
     Reject (Raw WithRequest)"
  using refresh_failure_clears_tokens [of "request_of ''/chat''" stringify0 WithRequest client0]
  by (simp add: request_of_def isAuthEndpoint_def)

text \<open>
  Against C8 as stated: storage holds both entries, the refresh fails, and the serialized
  User is still there afterwards. \<^verbatim>\<open>clearStoredTokens\<close> removes the one key
  \<^verbatim>\<open>STORAGE_KEYS.TOKENS\<close>, and the handler calls nothing else on storage.
\<close>

theorem refresh_failure_keeps_user_counterexample:
  "storage client0 STORAGE_KEYS_USER = Some ''user0'' \<and>
   storage client0 STORAGE_KEYS_TOKENS = Some ''tokens0'' \<and>
   storage (fst (on_refresh_settled stringify0 (Inl WithRequest) (request_of ''/chat'') client0))
     STORAGE_KEYS_USER = Some ''user0''"
  by (simp add: on_refresh_settled_def client0_def request_of_def isAuthEndpoint_def
      clearStoredTokens_def STORAGE_KEYS_USER_def STORAGE_KEYS_TOKENS_def)

section \<open>Sending a message\<close>

text \<open>
  C2 on the code, at a backend that cannot be reached. The api layer rejects every
  attempt with the normalized network error (status 0, type \<^verbatim>\<open>network_error\<close>), which the
  retry test accepts; yet \<^verbatim>\<open>sendMessage\<close> issues one backend call and waits for no delay,
  where the property asks for three calls and delays of 1 and 2 units.
\<close>

theorem sendMessage_network_error_single_call:
  "is_network_error (ApiErr (transformError WithRequest)) \<and>
   snd (sendMessage no_message clk0 clk1 unreachable ''hi'' initial_state) =
     ([PostMessage \<lparr> req_message = ''hi'', req_chat_id = None \<rparr>], [])"
  by (simp add: sendMessage_def trim_hi send_attempts_once initial_state_def messageData_def
      Let_def)

text \<open>
  C3. The send is taken in its two parts. The first part appends the optimistic user
  message, with the text as typed, to the window. When the \<^verbatim>\<open>try\<close> block fails with an
  error \<open>e\<close>, the second part, in whatever state \<open>s1\<close> it runs, leaves the window of \<open>s1\<close>
  as it is, appends to it exactly one assistant message whose content is the fixed
  apology, and puts the message of \<open>e\<close> into the error cell: the send removes nothing,
  and not the user message. For an accepted send (the trimmed text is not empty and no
  send is in progress) on whose state nothing else acts in between, the final window is
  therefore the window before the call, then the user message, then the apology.
\<close>

theorem sendMessage_failure_keeps_user_message:
  "messages (sendMessage_start clk text s) =
     messages s @ [userMessage clk (map_option c_id (currentChat s)) text] \<and>
   messages (sendMessage_done gem clk' cur_id (Inl e) s1) = messages s1 @ [errorMsg clk' cur_id] \<and>
   error (sendMessage_done gem clk' cur_id (Inl e) s1) = Some (gem e) \<and>
   m_role (userMessage clk cur_id text) = User \<and>
   m_content (userMessage clk cur_id text) = text \<and>
   m_role (errorMsg clk' cur_id) = Assistant \<and>
   m_content (errorMsg clk' cur_id) = apology \<and>
   (trim text \<noteq> [] \<and> \<not> isLoading s \<and> send_outcome api_post = Inl e \<longrightarrow>
      fst (sendMessage gem clk clk' api_post text s) =
        sendMessage_done gem clk' (map_option c_id (currentChat s)) (Inl e)
          (sendMessage_start clk text s) \<and>
      messages (fst (sendMessage gem clk clk' api_post text s)) =
        messages s @ [userMessage clk (map_option c_id (currentChat s)) text,
                      errorMsg clk' (map_option c_id (currentChat s))] \<and>
      error (fst (sendMessage gem clk clk' api_post text s)) = Some (gem e))"
proof -
  have start: "messages (sendMessage_start clk text s) =
                 messages s @ [userMessage clk (map_option c_id (currentChat s)) text]"
    by (simp add: sendMessage_start_def)
  have done_m: "messages (sendMessage_done gem clk' c (Inl e) t) = messages t @ [errorMsg clk' c]"
    for c t
    by (simp add: sendMessage_done_def)
  have done_e: "error (sendMessage_done gem clk' c (Inl e) t) = Some (gem e)" for c t
    by (simp add: sendMessage_done_def)
  have whole: "fst (sendMessage gem clk clk' api_post text s) =
                 sendMessage_done gem clk' (map_option c_id (currentChat s)) (Inl e)
                   (sendMessage_start clk text s)"
    if "trim text \<noteq> []" and "\<not> isLoading s" and "send_outcome api_post = Inl e"
  proof -
    obtain res calls delays where sa: "send_attempts api_post = (res, calls, delays)"
      by (cases "send_attempts api_post") auto
    have "validate_response res = Inl e"
      using that(3) by (simp add: send_outcome_def sa)
    then show ?thesis
      using that(1,2) by (simp add: sendMessage_def sa Let_def)
  qed
  have fields: "m_role (userMessage clk cur_id text) = User \<and>
                m_content (userMessage clk cur_id text) = text \<and>
                m_role (errorMsg clk' cur_id) = Assistant \<and>
                m_content (errorMsg clk' cur_id) = apology"
    by (simp add: userMessage_def errorMsg_def)
  show ?thesis
    using start done_m done_e fields whole by simp
qed

theorem sendMessage_failure_keeps_user_message_witness:
  "trim ''hi'' \<noteq> [] \<and> \<not> isLoading last_state \<and>
   send_outcome unreachable = Inl (Err ''Network error - please check your connection'') \<and>
   map m_content (messages (fst (sendMessage no_message clk0 clk1 unreachable ''hi'' last_state))) =
     [''other'', ''hi'', apology] \<and>
   error (fst (sendMessage no_message clk0 clk1 unreachable ''hi'' last_state)) = Some ''failed''"
proof -
  let ?e = "Err ''Network error - please check your connection''"
  have a: "trim ''hi'' \<noteq> []"
    by (simp add: trim_hi)
  have b: "\<not> isLoading last_state"
    by (simp add: last_state_def initial_state_def)
  have c: "send_outcome unreachable = Inl ?e"
    by (simp add: send_attempts_once send_outcome_def unreachable_def ChatService_call_def
        validate_response_def)
  note th = sendMessage_failure_keeps_user_message
              [of clk0 "''hi''" last_state no_message clk1 None ?e last_state unreachable]
  from th a b c have
    m: "messages (fst (sendMessage no_message clk0 clk1 unreachable ''hi'' last_state)) =
          messages last_state @ [userMessage clk0 (map_option c_id (currentChat last_state)) ''hi'',
                                 errorMsg clk1 (map_option c_id (currentChat last_state))]" and
    e: "error (fst (sendMessage no_message clk0 clk1 unreachable ''hi'' last_state)) =
          Some (no_message ?e)"
    by blast+
  have m': "map m_content (messages (fst (sendMessage no_message clk0 clk1 unreachable ''hi'' last_state))) =
              [''other'', ''hi'', apology]"
    unfolding m
    by (simp add: last_state_def initial_state_def msgB_def userMessage_def errorMsg_def)
  have e': "error (fst (sendMessage no_message clk0 clk1 unreachable ''hi'' last_state)) = Some ''failed''"
    unfolding e by (simp add: no_message_def)
  show ?thesis
    by (intro conjI a b c m' e')
qed

text \<open>
  What the second part finds in the window is not always what the first part left. The
  input is not disabled while a conversation is loading, so a send can start while the
  first page of the current conversation is still on its way. When that page arrives
  before the send fails, \<^verbatim>\<open>loadMessages\<close> replaces the window, user message included; the
  failing send then appends its apology to the window it finds.
\<close>

lemma sendMessage_with_load_in_between:
  "map m_id (messages (sendMessage_start clk0 ''hi'' pending_state)) = [''user-7''] \<and>
   map m_id
     (messages
        (sendMessage_done no_message clk1 (Some ''b'') (Inl (Err ''Network error''))
           (loadMessages_done no_message ''b'' 1 (Inr (page_of [msgB] 1 False))
              (sendMessage_start clk0 ''hi'' pending_state)))) = [''b1'', ''error-9'']"
  by (simp add: sendMessage_start_def sendMessage_done_def loadMessages_done_def
      loadMessages_start_def pending_state_def initial_state_def page_of_def userMessage_def
      errorMsg_def msgB_def clk0_def clk1_def decimal.simps)

section \<open>Loading messages\<close>

text \<open>
  C4, as the code has it. \<^verbatim>\<open>loadMessages\<close> has no guard: it issues its request whatever
  the loading flag says, and sets the flag. The guard is in \<^verbatim>\<open>loadMoreMessages\<close>, and it
  tests the flag: in every state in which \<^verbatim>\<open>isChatLoading\<close> is true, as it is when a
  \<^verbatim>\<open>loadMessages\<close> call has just started, a call of \<^verbatim>\<open>loadMoreMessages\<close> is dropped, issuing
  no request and leaving the whole state, and so the window, \<^verbatim>\<open>hasMoreMessages\<close> and
  \<^verbatim>\<open>currentPage\<close>, unchanged.
\<close>

theorem loadMore_dropped_while_loading:
  "snd (loadMessages_start chatId page s) = [GetMessages chatId page DEFAULT_PAGE_SIZE] \<and>
   (isChatLoading s \<longrightarrow> loadMoreMessages s = (s, [])) \<and>
   isChatLoading (fst (loadMessages_start chatId page s)) \<and>
   loadMoreMessages (fst (loadMessages_start chatId page s)) =
     (fst (loadMessages_start chatId page s), [])"
  by (simp add: loadMessages_start_def loadMoreMessages_def split: option.splits)

text \<open>
  The witness is a state in which only the flag stops the call: a conversation is
  current and more messages are there to load. Without the flag the same call goes out.
\<close>

theorem loadMore_dropped_while_loading_witness:
  "isChatLoading more_loading_state \<and> hasMoreMessages more_loading_state \<and>
   currentChat more_loading_state = Some (chat_of ''a'') \<and>
   loadMoreMessages more_loading_state = (more_loading_state, []) \<and>
   \<not> isChatLoading paged_state \<and>
   loadMoreMessages paged_state = (more_loading_state, [GetMessages ''a'' 4 3])"
proof -
  have fl: "isChatLoading more_loading_state"
    using loadMore_dropped_while_loading [of "''a''" 4 paged_state]
    by (simp add: more_loading_state_def)
  have hm: "hasMoreMessages more_loading_state"
    by (simp add: more_loading_state_def loadMessages_start_def paged_state_def
        loadMessages_done_def page_of_def)
  have cur: "currentChat more_loading_state = Some (chat_of ''a'')"
    by (simp add: more_loading_state_def loadMessages_start_def paged_state_def
        loadMessages_done_def)
  have dropped: "loadMoreMessages more_loading_state = (more_loading_state, [])"
    using loadMore_dropped_while_loading [of "''a''" 4 more_loading_state] fl by blast
  have nf: "\<not> isChatLoading paged_state"
    by (simp add: paged_state_def loadMessages_done_def)
  have goes: "loadMoreMessages paged_state = (more_loading_state, [GetMessages ''a'' 4 3])"
    by (simp add: loadMoreMessages_def more_loading_state_def loadMessages_start_def
        paged_state_def loadMessages_done_def page_of_def chat_of_def DEFAULT_PAGE_SIZE_def)
  show ?thesis
    by (intro conjI fl hm cur dropped nf goes)
qed

text \<open>
  Against C4 as stated: a load is in flight, \<^verbatim>\<open>loadMessages("a", 1)\<close> is called, a request
  goes out, and when it succeeds the window is replaced.
\<close>

theorem loadMessages_while_loading_counterexample:
  "isChatLoading loading_state \<and>
   snd (loadMessages_start ''a'' 1 loading_state) = [GetMessages ''a'' 1 3] \<and>
   messages loading_state = [msgB] \<and>
   messages (loadMessages_done no_message ''a'' 1 (Inr (page_of [msg1] 1 False))
               (fst (loadMessages_start ''a'' 1 loading_state))) = [msg1]"
  by (simp add: loading_state_def initial_state_def loadMessages_start_def
      loadMessages_done_def page_of_def DEFAULT_PAGE_SIZE_def)

text \<open>
  C5, as the code has it. A response to \<^verbatim>\<open>loadMessages\<close> is applied when it arrives,
  whichever conversation is current by then and whichever conversation it was asked for:
  no id is compared. On success the first page replaces the window and a later page is
  put in front of it, \<^verbatim>\<open>hasMoreMessages\<close> becomes the response's \<^verbatim>\<open>has_next\<close> and
  \<^verbatim>\<open>currentPage\<close> the page asked for.
\<close>

theorem loadMessages_done_ignores_current:
  "loadMessages_done gem chatId page out (s\<lparr> currentChat := cur \<rparr>) =
     (loadMessages_done gem chatId' page out s)\<lparr> currentChat := cur \<rparr> \<and>
   messages (loadMessages_done gem chatId page (Inr r) s) =
     (if page = 1 then pm_messages r else pm_messages r @ messages s) \<and>
   hasMoreMessages (loadMessages_done gem chatId page (Inr r) s) = pm_has_next r \<and>
   currentPage (loadMessages_done gem chatId page (Inr r) s) = page"
  by (simp add: loadMessages_done_def split: sum.splits)

text \<open>
  Against C5 as stated: conversation \<^verbatim>\<open>b\<close> is current when the first page asked for
  conversation \<^verbatim>\<open>a\<close> arrives; the window, \<^verbatim>\<open>hasMoreMessages\<close> and the loading flag are
  overwritten.
\<close>

theorem stale_response_counterexample:
  "map_option c_id (currentChat loading_state) = Some ''b'' \<and>
   messages loading_state = [msgB] \<and>
   hasMoreMessages loading_state = False \<and>
   messages (loadMessages_done no_message ''a'' 1 (Inr (page_of [msg1] 1 True)) loading_state) =
     [msg1] \<and>
   hasMoreMessages (loadMessages_done no_message ''a'' 1 (Inr (page_of [msg1] 1 True)) loading_state) =
     True"
  by (simp add: loading_state_def initial_state_def loadMessages_done_def page_of_def
      chat_of_def)

text \<open>
  C6, as the code has it. A successful load of a page after the first puts the returned
  messages, as returned, in front of the existing window; nothing is compared, dropped
  or re-ordered. So the resulting window has no duplicate ids and is strictly
  chronologically ordered exactly when the returned page and the existing window each
  are, and every returned message has an id that is not in the window and is older than
  every message in the window.
\<close>

theorem loadMessages_prepends_page:
  assumes "1 < page"
  shows "messages (loadMessages_done gem chatId page (Inr r) s) = pm_messages r @ messages s \<and>
         (window_ok ts (messages (loadMessages_done gem chatId page (Inr r) s)) \<longleftrightarrow>
            window_ok ts (pm_messages r) \<and> window_ok ts (messages s) \<and>
            (\<forall>x\<in>set (pm_messages r). \<forall>y\<in>set (messages s).
               m_id x \<noteq> m_id y \<and> ts (m_created_at x) < ts (m_created_at y)))"
  using assms by (simp add: loadMessages_done_def window_ok_append)

theorem loadMessages_prepends_page_witness:
  "(1::int) < 2 \<and>
   window_ok iso_key [msg1, msg2] \<and> window_ok iso_key (messages last_state) \<and>
   messages (loadMessages_done no_message ''b'' 2 (Inr (page_of [msg1, msg2] 2 False)) last_state) =
     [msg1, msg2, msgB] \<and>
   window_ok iso_key
     (messages (loadMessages_done no_message ''b'' 2 (Inr (page_of [msg1, msg2] 2 False)) last_state))"
proof -
  let ?s' = "loadMessages_done no_message ''b'' 2 (Inr (page_of [msg1, msg2] 2 False)) last_state"
  have lt: "(1::int) < 2"
    by simp
  have ids: "m_id msg1 = ''m1''" "m_id msg2 = ''m2''" "m_id msgB = ''b1''"
    by (simp_all add: msg1_def msg2_def msgB_def)
  have pm: "pm_messages (page_of [msg1, msg2] 2 False) = [msg1, msg2]"
    by (simp add: page_of_def)
  have ms: "messages last_state = [msgB]"
    by (simp add: last_state_def)
  have w1: "window_ok iso_key [msg1, msg2]"
    by (simp add: window_ok_def ids iso_key_examples)
  have w2: "window_ok iso_key (messages last_state)"
    by (simp add: window_ok_def ms)
  have w1': "window_ok iso_key (pm_messages (page_of [msg1, msg2] 2 False))"
    using w1 by (simp only: pm)
  have fresh: "\<forall>x\<in>set (pm_messages (page_of [msg1, msg2] 2 False)). \<forall>y\<in>set (messages last_state).
                 m_id x \<noteq> m_id y \<and> iso_key (m_created_at x) < iso_key (m_created_at y)"
    by (simp add: pm ms ids iso_key_examples)
  note th = loadMessages_prepends_page
              [OF lt, of no_message "''b''" "page_of [msg1, msg2] 2 False" last_state iso_key]
  have eq: "messages ?s' = [msg1, msg2, msgB]"
    using conjunct1 [OF th] by (simp only: pm ms append.simps)
  have ok: "window_ok iso_key (messages ?s')"
    by (rule iffD2 [OF conjunct2 [OF th]]) (intro conjI w1' w2 fresh)
  show ?thesis
    by (intro conjI lt w1 w2 eq ok)
qed

text \<open>
  Against C6 as stated: the second page brings a message whose id is already in the
  window, and the window then holds that id twice.
\<close>

theorem prepend_duplicate_counterexample:
  "map m_id (messages (loadMessages_done no_message ''b'' 2 (Inr (page_of [msgB] 2 False)) last_state)) =
     [''b1'', ''b1'']"
  by (simp add: last_state_def initial_state_def loadMessages_done_def page_of_def msgB_def)

section \<open>Deleting and creating conversations\<close>

text \<open>
  C7. When the current conversation is deleted and the backend call succeeds: if a
  conversation remains, the first one of the remaining list becomes current (so current
  is not null), the page counter is back at 1 and the first page of that conversation is
  asked for, replacing the window when it arrives; if none remains, current is null and
  the window is exactly one welcome message, as after \<^verbatim>\<open>createNewChat\<close>. In both cases the
  list is the old one without the deleted conversation.
\<close>

theorem deleteChat_current_fallback:
  assumes "currentChat s = Some cur" and "c_id cur = chatId"
  shows "(case filter (\<lambda>c. c_id c \<noteq> chatId) (chats s) of
            nextChat # rest \<Rightarrow>
              currentChat (fst (deleteChat gem clk isAuthenticated chatId (Inr ()) s)) = Some nextChat \<and>
              currentPage (fst (deleteChat gem clk isAuthenticated chatId (Inr ()) s)) = 1 \<and>
              snd (deleteChat gem clk isAuthenticated chatId (Inr ()) s) =
                [DeleteChat chatId, GetMessages (c_id nextChat) 1 DEFAULT_PAGE_SIZE] \<and>
              messages (loadMessages_done gem (c_id nextChat) 1 (Inr r)
                          (fst (deleteChat gem clk isAuthenticated chatId (Inr ()) s))) = pm_messages r
          | [] \<Rightarrow>
              currentChat (fst (deleteChat gem clk isAuthenticated chatId (Inr ()) s)) = None \<and>
              messages (fst (deleteChat gem clk isAuthenticated chatId (Inr ()) s)) =
                [getWelcomeMessage clk] \<and>
              snd (deleteChat gem clk isAuthenticated chatId (Inr ()) s) = [DeleteChat chatId] \<and>
              fst (deleteChat gem clk isAuthenticated chatId (Inr ()) s) =
                (fst (createNewChat clk s))\<lparr> chats := [], error := None, isLoading := False \<rparr>) \<and>
         chats (fst (deleteChat gem clk isAuthenticated chatId (Inr ()) s)) =
           filter (\<lambda>c. c_id c \<noteq> chatId) (chats s)"
  using assms
  by (simp add: deleteChat_def deleteChat_start_def deleteChat_done_def loadMessages_start_def
      loadMessages_done_def createNewChat_def Let_def split: list.splits)

theorem deleteChat_current_fallback_witness:
  "currentChat loading_state = Some (chat_of ''b'') \<and> currentChat last_state = Some (chat_of ''b'') \<and>
   c_id (chat_of ''b'') = ''b'' \<and>
   currentChat (fst (deleteChat no_message clk0 True ''b'' (Inr ()) loading_state)) = Some (chat_of ''a'') \<and>
   snd (deleteChat no_message clk0 True ''b'' (Inr ()) loading_state) =
     [DeleteChat ''b'', GetMessages ''a'' 1 3] \<and>
   chats (fst (deleteChat no_message clk0 True ''b'' (Inr ()) loading_state)) = [chat_of ''a''] \<and>
   currentChat (fst (deleteChat no_message clk0 True ''b'' (Inr ()) last_state)) = None \<and>
   messages (fst (deleteChat no_message clk0 True ''b'' (Inr ()) last_state)) = [getWelcomeMessage clk0]"
proof -
  have a: "currentChat loading_state = Some (chat_of ''b'')"
    by (simp add: loading_state_def)
  have b: "currentChat last_state = Some (chat_of ''b'')"
    by (simp add: last_state_def)
  have c: "c_id (chat_of ''b'') = ''b''"
    by (simp add: chat_of_def)
  have f1: "filter (\<lambda>c. c_id c \<noteq> ''b'') (chats loading_state) = [chat_of ''a'']"
    by (simp add: loading_state_def chat_of_def)
  have f2: "filter (\<lambda>c. c_id c \<noteq> ''b'') (chats last_state) = []"
    by (simp add: last_state_def chat_of_def)
  show ?thesis
    using deleteChat_current_fallback [OF a c, of no_message clk0 True "page_of [msg1] 1 False"]
      deleteChat_current_fallback [OF b c, of no_message clk0 True "page_of [msg1] 1 False"]
      a b c
    by (simp add: f1 f2 chat_of_def createNewChat_def DEFAULT_PAGE_SIZE_def)
qed

text \<open>
  C9, as the code has it. \<^verbatim>\<open>createNewChat\<close> issues no backend call, and neither does the
  effect that follows the change of the current conversation; it leaves current null and
  the window equal to exactly one welcome message.
\<close>

theorem createNewChat_local:
  "snd (createNewChat clk s) = [] \<and>
   snd (currentChat_effect isAuthenticated (fst (createNewChat clk s))) = [] \<and>
   currentChat (fst (createNewChat clk s)) = None \<and>
   messages (fst (createNewChat clk s)) = [getWelcomeMessage clk]"
  by (simp add: createNewChat_def currentChat_effect_def)

text \<open>
  Against C9 as stated: after the third page of a conversation has been loaded, with more
  to come, \<^verbatim>\<open>createNewChat\<close> leaves the page counter at 3 and \<^verbatim>\<open>hasMoreMessages\<close> true;
  it calls neither \<^verbatim>\<open>setCurrentPage\<close> nor \<^verbatim>\<open>setHasMoreMessages\<close>.
\<close>

theorem createNewChat_pagination_counterexample:
  "currentPage (fst (createNewChat clk0 paged_state)) = 3 \<and>
   hasMoreMessages (fst (createNewChat clk0 paged_state)) = True"
  by (simp add: createNewChat_def paged_state_def loadMessages_done_def page_of_def)

section \<open>The conversation list\<close>



end
